theory Spec2Isabelle
  imports Main
begin

section \<open>Data model\<close>

text \<open>
  The front end receives applications and appointments as JSON objects. Only the fields
  that the view logic reads are kept. Status and type are kept as the strings the server
  sends, because the components compare them with string literals and have a fall-through
  branch for every other value. \<open>can_be_rescheduled\<close> is the truthiness of the flag.
  An appointment names its application twice, by \<open>application_id\<close> and by
  \<open>application_number\<close>; both are strings in every object the server sends.
\<close>

record application =
  app_id :: string
  app_application_number :: string
  app_status :: string

record appointment =
  apt_id :: string
  apt_application_id :: string
  apt_application_number :: string
  apt_type :: string
  apt_status :: string
  can_be_rescheduled :: bool

section \<open>ApplicationDetail: appointment eligibility\<close>

text \<open>
  The helper closures of the page read the component's \<open>application\<close> and
  \<open>appointments\<close> state, which \<open>fetchData\<close> (below) fills from the server's answers.
\<close>

text \<open>
  \<open>Array.prototype.find\<close>: visit the elements from index 0 upwards and return the first
  one the predicate accepts, \<open>undefined\<close> (here \<open>None\<close>) when there is none.
\<close>

primrec array_find :: "('a \<Rightarrow> bool) \<Rightarrow> 'a list \<Rightarrow> 'a option" where
  "array_find p [] = None"
| "array_find p (x # xs) = (if p x then Some x else array_find p xs)"

definition getSubmissionAppointment :: "appointment list \<Rightarrow> appointment option" where
  "getSubmissionAppointment appointments =
     array_find (\<lambda>apt. apt_type apt = ''submission'') appointments"

definition getCollectionAppointment :: "appointment list \<Rightarrow> appointment option" where
  "getCollectionAppointment appointments =
     array_find (\<lambda>apt. apt_type apt = ''collection'') appointments"

text \<open>
  \<open>application?.status === 'submitted' && !getSubmissionAppointment()\<close>. The application
  state is \<open>null\<close> until it is loaded, hence the option; an appointment object is truthy,
  \<open>undefined\<close> is falsy.
\<close>

definition canBookSubmission :: "application option \<Rightarrow> appointment list \<Rightarrow> bool" where
  "canBookSubmission application appointments =
     ((case application of None \<Rightarrow> False | Some a \<Rightarrow> app_status a = ''submitted'')
      \<and> getSubmissionAppointment appointments = None)"

definition canBookCollection :: "application option \<Rightarrow> appointment list \<Rightarrow> bool" where
  "canBookCollection application appointments =
     ((case application of None \<Rightarrow> False | Some a \<Rightarrow> app_status a = ''ready_for_pickup'')
      \<and> getCollectionAppointment appointments = None)"

text \<open>
  What one appointment block of the page shows. The JSX is a chain of two conditionals:
  an existing appointment of the type gives the details card, whose reschedule link and
  cancel button sit together under \<open>can_be_rescheduled &&\<close>; otherwise the booking link
  is shown when booking is allowed; otherwise a line of text.
\<close>

datatype detail_action = RescheduleLink string | CancelButton string

datatype appointment_block =
    BookedCard appointment "detail_action list"
  | BookSubmissionLink
  | BookCollectionLink
  | InfoText

definition card_actions :: "appointment \<Rightarrow> detail_action list" where
  "card_actions apt =
     (if can_be_rescheduled apt then [RescheduleLink (apt_id apt), CancelButton (apt_id apt)]
      else [])"

definition submission_block :: "application \<Rightarrow> appointment list \<Rightarrow> appointment_block" where
  "submission_block application appointments =
     (case getSubmissionAppointment appointments of
        Some apt \<Rightarrow> BookedCard apt (card_actions apt)
      | None \<Rightarrow>
          if canBookSubmission (Some application) appointments then BookSubmissionLink
          else InfoText)"

definition collection_block :: "application \<Rightarrow> appointment list \<Rightarrow> appointment_block" where
  "collection_block application appointments =
     (case getCollectionAppointment appointments of
        Some apt \<Rightarrow> BookedCard apt (card_actions apt)
      | None \<Rightarrow>
          if canBookCollection (Some application) appointments then BookCollectionLink
          else InfoText)"

section \<open>Requests and other effects of the event handlers\<close>

text \<open>
  The handlers of the pages send one mutating request and then react to its outcome.
  A handler is modelled by the list of its effects, in order. The arguments
  \<open>confirmed\<close> (the answer to \<open>window.confirm\<close>) and \<open>accepted\<close> (whether the request
  resolved) stand for what the handler cannot decide itself. \<open>ToastError t\<close> after a
  request is the error toast of the \<open>catch\<close> block, which shows the detail or message the
  error carries and the text \<open>t\<close> when it carries none; \<open>Refetch\<close> is the reload of the
  page's list.
\<close>

datatype api_call =
    CancelAppointment string string
  | RescheduleAppointment string string string
  | CheckInAppointment string
  | CompleteAppointment string

datatype effect =
    Request api_call
  | ToastSuccess string
  | ToastError string
  | Navigate string
  | Refetch

section \<open>ApplicationDetail: loading and the rendered page\<close>

text \<open>
  \<open>fetchData\<close> requests the application of the route's \<open>id\<close> (\<open>routeId\<close> below) and all
  appointments of the user together. It stores the application and keeps, as the
  component's \<open>appointments\<close>, those of this application only:
  \<open>appointmentsData.filter(apt => apt.application_id === id ||
  apt.application_number === appData.application_number)\<close>.
  When one of the two requests fails, the \<open>catch\<close> block leaves the application \<open>null\<close>
  and the appointments empty (\<open>None\<close> as the response below).
\<close>

definition belongs_to_application :: "string \<Rightarrow> application \<Rightarrow> appointment \<Rightarrow> bool" where
  "belongs_to_application routeId appData apt =
     (apt_application_id apt = routeId
      \<or> apt_application_number apt = app_application_number appData)"

definition appAppointments :: "string \<Rightarrow> application \<Rightarrow> appointment list \<Rightarrow> appointment list" where
  "appAppointments routeId appData appointmentsData =
     filter (belongs_to_application routeId appData) appointmentsData"

record detail_state =
  ds_application :: "application option"
  ds_appointments :: "appointment list"

definition fetchData :: "string \<Rightarrow> (application \<times> appointment list) option \<Rightarrow> detail_state" where
  "fetchData routeId response =
     (case response of
        None \<Rightarrow> \<lparr>ds_application = None, ds_appointments = []\<rparr>
      | Some (appData, appointmentsData) \<Rightarrow>
          \<lparr>ds_application = Some appData,
           ds_appointments = appAppointments routeId appData appointmentsData\<rparr>)"

text \<open>
  Apart from the two appointment blocks, the page has one more control that concerns
  appointments: the sidebar card "Ready for Pickup", rendered under
  \<open>application.status === 'ready_for_pickup' &&\<close>, with the button "Schedule Pickup". The
  button has no \<open>onClick\<close>, so a click on it has no effect.
\<close>

datatype sidebar_action = SchedulePickupButton

definition sidebar_actions :: "application \<Rightarrow> sidebar_action list" where
  "sidebar_actions application =
     (if app_status application = ''ready_for_pickup'' then [SchedulePickupButton] else [])"

fun click_sidebar_action :: "sidebar_action \<Rightarrow> effect list" where
  "click_sidebar_action SchedulePickupButton = []"

text \<open>
  The page once loading has ended: the "Application Not Found" card without an
  application, and otherwise the submission block, the collection block and the sidebar
  actions, all computed from the component's state.
\<close>

datatype detail_page =
    ApplicationNotFound
  | DetailPage appointment_block appointment_block "sidebar_action list"

definition render_detail :: "detail_state \<Rightarrow> detail_page" where
  "render_detail st =
     (case ds_application st of
        None \<Rightarrow> ApplicationNotFound
      | Some application \<Rightarrow>
          DetailPage (submission_block application (ds_appointments st))
                     (collection_block application (ds_appointments st))
                     (sidebar_actions application))"

section \<open>MyAppointments: the applicant's appointment list\<close>

text \<open>
  Each card of the list ends with one conditional block,
  \<open>appointment.status === 'scheduled' && appointment.can_be_rescheduled && (...)\<close>,
  holding the only button of the card, "Cancel Appointment". The list has no reschedule
  control at all. Clicking the button runs \<open>handleCancel\<close>, which asks for confirmation
  and then sends the cancel request with the fixed reason.
\<close>

datatype list_action = CancelAppointmentButton string

definition list_actions :: "appointment \<Rightarrow> list_action list" where
  "list_actions appointment =
     (if apt_status appointment = ''scheduled'' \<and> can_be_rescheduled appointment
      then [CancelAppointmentButton (apt_id appointment)] else [])"

definition handleCancel :: "bool \<Rightarrow> bool \<Rightarrow> string \<Rightarrow> effect list" where
  "handleCancel confirmed accepted appointmentId =
     (if \<not> confirmed then []
      else Request (CancelAppointment appointmentId ''Cancelled by user'')
           # (if accepted
              then [ToastSuccess ''Appointment cancelled successfully'', Refetch]
              else [ToastError ''Failed to cancel appointment'']))"

section \<open>RescheduleAppointment: the reschedule page\<close>

text \<open>
  The page is mounted on the route \<open>appointments/:id/reschedule\<close>. Its state holds the
  appointment found by the route's id (\<open>routeId\<close> below), the application, the chosen
  slot, the reason and the busy flag. While the appointment or the application is missing
  it shows a spinner. Otherwise the "Confirm Reschedule" button is enabled unless no slot
  is chosen or a request is pending, and runs \<open>handleReschedule\<close>, which tests the chosen
  slot only.
\<close>

record time_slot =
  slot_id :: string
  start_time :: string

record reschedule_state =
  rs_appointment :: "appointment option"
  rs_application :: "application option"
  rs_selectedSlot :: "time_slot option"
  rs_reason :: string
  rs_loading :: bool

definition handleReschedule ::
  "string \<Rightarrow> string \<Rightarrow> bool \<Rightarrow> reschedule_state \<Rightarrow> effect list" where
  "handleReschedule routeId applicationId accepted st =
     (case rs_selectedSlot st of
        None \<Rightarrow> [ToastError ''Please select a time slot'']
      | Some slot \<Rightarrow>
          Request (RescheduleAppointment routeId (slot_id slot) (rs_reason st))
          # (if accepted
             then [ToastSuccess ''Appointment rescheduled successfully!'',
                   Navigate (''/applicant/applications/'' @ applicationId)]
             else [ToastError ''Failed to reschedule'']))"

datatype reschedule_page = Spinner | RescheduleForm bool

definition render_reschedule :: "reschedule_state \<Rightarrow> reschedule_page" where
  "render_reschedule st =
     (if rs_appointment st = None \<or> rs_application st = None then Spinner
      else RescheduleForm (rs_selectedSlot st \<noteq> None \<and> \<not> rs_loading st))"

text \<open>
  A click on "Confirm Reschedule": nothing when the button is absent or disabled, the
  handler otherwise.
\<close>

definition click_confirm ::
  "string \<Rightarrow> string \<Rightarrow> bool \<Rightarrow> reschedule_state \<Rightarrow> effect list" where
  "click_confirm routeId applicationId accepted st =
     (case render_reschedule st of
        Spinner \<Rightarrow> []
      | RescheduleForm enabled \<Rightarrow>
          if enabled then handleReschedule routeId applicationId accepted st else [])"

section \<open>DailySchedule: the officer's action column\<close>

text \<open>
  The action column is a chain of conditionals on the appointment's status: the check-in
  button for scheduled, confirmed and rescheduled; the complete button for checked_in; a
  text for completed; an empty element for everything else.
\<close>

datatype schedule_action =
    CheckInButton string
  | CompleteButton string
  | CompletedText
  | EmptyDiv

definition schedule_action :: "appointment \<Rightarrow> schedule_action" where
  "schedule_action appointment =
     (if apt_status appointment = ''scheduled'' \<or> apt_status appointment = ''confirmed''
         \<or> apt_status appointment = ''rescheduled''
      then CheckInButton (apt_id appointment)
      else if apt_status appointment = ''checked_in'' then CompleteButton (apt_id appointment)
      else if apt_status appointment = ''completed'' then CompletedText
      else EmptyDiv)"

text \<open>
  \<open>handleCheckIn\<close> sends the check-in request; \<open>handleComplete\<close> asks for confirmation
  first and then sends the complete request. A click on an element of the column runs the
  handler bound to it.
\<close>

definition handleCheckIn :: "bool \<Rightarrow> string \<Rightarrow> effect list" where
  "handleCheckIn accepted appointmentId =
     Request (CheckInAppointment appointmentId)
     # (if accepted
        then [ToastSuccess ''Appointment checked in successfully!'', Refetch]
        else [ToastError ''Failed to check in''])"

definition handleComplete :: "bool \<Rightarrow> bool \<Rightarrow> string \<Rightarrow> effect list" where
  "handleComplete confirmed accepted appointmentId =
     (if \<not> confirmed then []
      else Request (CompleteAppointment appointmentId)
           # (if accepted
              then [ToastSuccess ''Appointment completed! Passport collected.'', Refetch]
              else [ToastError ''Failed to complete'']))"

fun click_schedule_action :: "bool \<Rightarrow> bool \<Rightarrow> schedule_action \<Rightarrow> effect list" where
  "click_schedule_action confirmed accepted (CheckInButton i) = handleCheckIn accepted i"
| "click_schedule_action confirmed accepted (CompleteButton i) =
     handleComplete confirmed accepted i"
| "click_schedule_action confirmed accepted CompletedText = []"
| "click_schedule_action confirmed accepted EmptyDiv = []"

section \<open>StatusTimeline: the progress display\<close>

text \<open>
  \<open>STATUSES\<close> is the component's constant table of steps, in display order; each step has
  a key and a label (the icon, a pictograph, plays no part in the logic and is left out).
\<close>

definition STATUSES :: "(string \<times> string) list" where
  "STATUSES =
     [(''submitted'', ''Submitted''),
      (''under_review'', ''Under Review''),
      (''processing'', ''Processing''),
      (''quality_check'', ''Quality Check''),
      (''ready_for_pickup'', ''Ready for Pickup''),
      (''collected'', ''Collected'')]"

text \<open>
  \<open>Array.prototype.findIndex\<close>: the index of the first element the predicate accepts,
  \<open>-1\<close> when there is none. The index is a JavaScript number, hence \<open>int\<close>.
\<close>

fun findIndex_from :: "('a \<Rightarrow> bool) \<Rightarrow> 'a list \<Rightarrow> int \<Rightarrow> int" where
  "findIndex_from p [] k = - 1"
| "findIndex_from p (x # xs) k = (if p x then k else findIndex_from p xs (k + 1))"

definition findIndex :: "('a \<Rightarrow> bool) \<Rightarrow> 'a list \<Rightarrow> int" where
  "findIndex p xs = findIndex_from p xs 0"

definition currentIndex :: "string \<Rightarrow> int" where
  "currentIndex status = findIndex (\<lambda>s. fst s = status) STATUSES"

definition isCompleted :: "string \<Rightarrow> int \<Rightarrow> bool" where
  "isCompleted status index = (index \<le> currentIndex status)"

definition isCurrent :: "string \<Rightarrow> int \<Rightarrow> bool" where
  "isCurrent status index = (index = currentIndex status)"

text \<open>
  The component maps every step of \<open>STATUSES\<close>, with its index, to one row: the icon and
  the label are highlighted when the step is completed, the line "Current Status" is shown
  when it is current, and a connecting line (highlighted when completed) follows every step
  but the last.
\<close>

record step_view =
  sv_key :: string
  sv_label :: string
  sv_completed :: bool
  sv_current :: bool
  sv_connector :: "bool option"

fun map_steps :: "string \<Rightarrow> int \<Rightarrow> (string \<times> string) list \<Rightarrow> step_view list" where
  "map_steps status index [] = []"
| "map_steps status index (step # rest) =
     \<lparr>sv_key = fst step, sv_label = snd step,
      sv_completed = isCompleted status index,
      sv_current = isCurrent status index,
      sv_connector = (if index < int (length STATUSES) - 1
                      then Some (isCompleted status index) else None)\<rparr>
     # map_steps status (index + 1) rest"

definition StatusTimeline :: "string \<Rightarrow> step_view list" where
  "StatusTimeline status = map_steps status 0 STATUSES"

section \<open>Status labels and colours\<close>

text \<open>
  \<open>formatStatus\<close> is \<open>status.split('_').map(word => word.charAt(0).toUpperCase() +
  word.slice(1)).join(' ')\<close>. \<open>split\<close> always yields at least one piece; \<open>charAt(0)\<close> of
  the empty piece is the empty string. Characters are bytes here, and \<open>toUpperCase\<close> is
  modelled on the ASCII letters the status identifiers consist of; any other character is
  left as it is.
\<close>

fun split_on :: "char \<Rightarrow> string \<Rightarrow> string list" where
  "split_on sep [] = [[]]"
| "split_on sep (c # cs) =
     (if c = sep then [] # split_on sep cs
      else (case split_on sep cs of
              [] \<Rightarrow> [[c]]
            | w # ws \<Rightarrow> (c # w) # ws))"

fun join_with :: "string \<Rightarrow> string list \<Rightarrow> string" where
  "join_with sep [] = []"
| "join_with sep [w] = w"
| "join_with sep (w # v # ws) = w @ sep @ join_with sep (v # ws)"

definition is_lower :: "char \<Rightarrow> bool" where
  "is_lower c = (97 \<le> (of_char c :: nat) \<and> (of_char c :: nat) \<le> 122)"

definition is_upper :: "char \<Rightarrow> bool" where
  "is_upper c = (65 \<le> (of_char c :: nat) \<and> (of_char c :: nat) \<le> 90)"

definition toUpperCase :: "char \<Rightarrow> char" where
  "toUpperCase c = (if is_lower c then char_of ((of_char c :: nat) - 32) else c)"

definition capitalize :: "string \<Rightarrow> string" where
  "capitalize word = (case word of [] \<Rightarrow> [] | c # cs \<Rightarrow> toUpperCase c # cs)"

definition formatStatus :: "string \<Rightarrow> string" where
  "formatStatus status = join_with '' '' (map capitalize (split_on (CHR ''_'') status))"

text \<open>
  \<open>getStatusColor\<close> is \<open>colors[status] || 'bg-gray-100 text-gray-800'\<close> on an object
  literal. The lookup also finds the members every object inherits; for those names the
  result is not a class string, which the result type records.
\<close>

definition colors :: "(string \<times> string) list" where
  "colors =
     [(''submitted'', ''bg-blue-100 text-blue-800''),
      (''under_review'', ''bg-yellow-100 text-yellow-800''),
      (''documents_required'', ''bg-orange-100 text-orange-800''),
      (''processing'', ''bg-purple-100 text-purple-800''),
      (''quality_check'', ''bg-indigo-100 text-indigo-800''),
      (''ready_for_pickup'', ''bg-green-100 text-green-800''),
      (''collected'', ''bg-gray-100 text-gray-800''),
      (''expired'', ''bg-red-100 text-red-800''),
      (''rejected'', ''bg-red-100 text-red-800'')]"

definition object_prototype_members :: "string list" where
  "object_prototype_members =
     [''constructor'', ''hasOwnProperty'', ''isPrototypeOf'', ''propertyIsEnumerable'',
      ''toLocaleString'', ''toString'', ''valueOf'', ''__proto__'',
      ''__defineGetter__'', ''__defineSetter__'', ''__lookupGetter__'', ''__lookupSetter__'']"

datatype color_result = ClassName string | InheritedMember string

definition getStatusColor :: "string \<Rightarrow> color_result" where
  "getStatusColor status =
     (case map_of colors status of
        Some c \<Rightarrow> ClassName c
      | None \<Rightarrow>
          if status \<in> set object_prototype_members then InheritedMember status
          else ClassName ''bg-gray-100 text-gray-800'')"

text \<open>
  The application statuses of the data model, and the colour categories the table and its
  default can yield.
\<close>

definition APPLICATION_STATUSES :: "string list" where
  "APPLICATION_STATUSES =
     [''submitted'', ''under_review'', ''documents_required'', ''processing'',
      ''quality_check'', ''ready_for_pickup'', ''collected'', ''expired'', ''rejected'']"

definition COLOR_CATEGORIES :: "string list" where
  "COLOR_CATEGORIES =
     [''bg-blue-100 text-blue-800'', ''bg-yellow-100 text-yellow-800'',
      ''bg-orange-100 text-orange-800'', ''bg-purple-100 text-purple-800'',
      ''bg-indigo-100 text-indigo-800'', ''bg-green-100 text-green-800'',
      ''bg-gray-100 text-gray-800'', ''bg-red-100 text-red-800'']"

text \<open>
  A label is in Title Case when each of its space-separated words is a capital letter
  followed by small letters. \<open>str_includes\<close> is \<open>String.prototype.includes\<close>.
\<close>

definition title_word :: "string \<Rightarrow> bool" where
  "title_word w = (case w of [] \<Rightarrow> False | c # cs \<Rightarrow> is_upper c \<and> list_all is_lower cs)"

definition title_case :: "string \<Rightarrow> bool" where
  "title_case label = list_all title_word (split_on (CHR '' '') label)"

fun starts_with :: "string \<Rightarrow> string \<Rightarrow> bool" where
  "starts_with s [] = True"
| "starts_with [] (p # ps) = False"
| "starts_with (c # cs) (p # ps) = (c = p \<and> starts_with cs ps)"

fun str_includes :: "string \<Rightarrow> string \<Rightarrow> bool" where
  "str_includes [] sub = (sub = [])"
| "str_includes (c # cs) sub = (starts_with (c # cs) sub \<or> str_includes cs sub)"

section \<open>Browser storage (utils/storage.js)\<close>

text \<open>
  The part of the browser the HTTP client touches: the items of \<open>localStorage\<close>, whether
  \<open>localStorage.setItem\<close> succeeds (it throws when the quota is exhausted or storage is
  disabled, while the items already stored stay readable), and the address of the page.
\<close>

record browser =
  ls_items :: "string \<rightharpoonup> string"
  ls_writable :: bool
  location_href :: string

definition AUTH_TOKEN :: string where
  "AUTH_TOKEN = ''passport_auth_token''"

definition USER_DATA :: string where
  "USER_DATA = ''passport_user_data''"

text \<open>
  \<open>isLocalStorageAvailable\<close> writes a test key and removes it again inside a
  \<open>try\<close>; a throwing \<open>setItem\<close> is caught and reported as \<open>false\<close>.
\<close>

definition isLocalStorageAvailable :: "browser \<Rightarrow> bool \<times> browser" where
  "isLocalStorageAvailable b =
     (if ls_writable b
      then (True, b\<lparr>ls_items := (ls_items b)(''__localStorage_test__'' := None)\<rparr>)
      else (False, b))"

text \<open>
  \<open>removeItem\<close> returns \<open>false\<close> without touching the key when storage is reported
  unavailable, and removes the key otherwise.
\<close>

definition removeItem :: "string \<Rightarrow> browser \<Rightarrow> bool \<times> browser" where
  "removeItem key b =
     (case isLocalStorageAvailable b of
        (False, b') \<Rightarrow> (False, b')
      | (True, b') \<Rightarrow> (True, b'\<lparr>ls_items := (ls_items b')(key := None)\<rparr>))"

definition removeAuthToken :: "browser \<Rightarrow> bool \<times> browser" where
  "removeAuthToken b = removeItem AUTH_TOKEN b"

definition removeUserData :: "browser \<Rightarrow> bool \<times> browser" where
  "removeUserData b = removeItem USER_DATA b"

definition clearAuthData :: "browser \<Rightarrow> bool \<times> browser" where
  "clearAuthData b =
     (case removeAuthToken b of
        (tokenRemoved, b1) \<Rightarrow>
          (case removeUserData b1 of
             (userDataRemoved, b2) \<Rightarrow> (tokenRemoved \<and> userDataRemoved, b2)))"

section \<open>The HTTP client's response interceptor (api/axios.js)\<close>

text \<open>
  Response bodies are JSON values, read with JavaScript's rules: truthiness, and member
  access that throws a TypeError on \<open>null\<close> and \<open>undefined\<close> and yields \<open>undefined\<close> for
  a missing member. The members read are \<open>detail\<close> and \<open>msg\<close>, which no built-in
  prototype defines. Only the truthiness of a number matters here.
\<close>

datatype jsval =
    JUndefined
  | JNull
  | JBool bool
  | JNum int
  | JStr string
  | JArr "jsval list"
  | JObj "(string \<times> jsval) list"

datatype js_error = TypeError

fun truthy :: "jsval \<Rightarrow> bool" where
  "truthy JUndefined = False"
| "truthy JNull = False"
| "truthy (JBool b) = b"
| "truthy (JNum n) = (n \<noteq> 0)"
| "truthy (JStr s) = (s \<noteq> [])"
| "truthy (JArr xs) = True"
| "truthy (JObj kvs) = True"

fun get_member :: "jsval \<Rightarrow> string \<Rightarrow> js_error + jsval" where
  "get_member JUndefined key = Inl TypeError"
| "get_member JNull key = Inl TypeError"
| "get_member (JObj kvs) key = (case map_of kvs key of None \<Rightarrow> Inr JUndefined | Some v \<Rightarrow> Inr v)"
| "get_member v key = Inr JUndefined"

fun isArray :: "jsval \<Rightarrow> bool" where
  "isArray (JArr xs) = True"
| "isArray v = False"

fun isString :: "jsval \<Rightarrow> bool" where
  "isString (JStr s) = True"
| "isString v = False"

text \<open>\<open>a[0]\<close> on an array: the first element, \<open>undefined\<close> when the array is empty.\<close>

fun first_element :: "jsval \<Rightarrow> jsval" where
  "first_element (JArr (x # xs)) = x"
| "first_element v = JUndefined"

definition NETWORK_ERROR :: string where
  "NETWORK_ERROR = ''Network error. Please check your connection.''"

definition UNAUTHORIZED :: string where
  "UNAUTHORIZED = ''Session expired. Please login again.''"

definition FORBIDDEN :: string where
  "FORBIDDEN = ''You do not have permission to perform this action.''"

definition NOT_FOUND :: string where
  "NOT_FOUND = ''The requested resource was not found.''"

definition SERVER_ERROR :: string where
  "SERVER_ERROR = ''Server error. Please try again later.''"

definition VALIDATION_ERROR :: string where
  "VALIDATION_ERROR = ''Please check your input and try again.''"

text \<open>
  The error handed to the interceptor: the request it belongs to and, when the server
  answered, the status and the parsed body. The object the interceptor rejects with: a
  field that the object literal does not mention is \<open>None\<close>.
\<close>

record axios_error =
  err_url :: string
  err_response :: "(int \<times> jsval) option"

record rejection =
  rej_message :: jsval
  rej_status :: int
  rej_data :: "jsval option"
  rej_errors :: "jsval option"

datatype reject_reason = Rejected rejection | Thrown js_error

text \<open>
  The 422 case: the message starts as the generic one; a truthy array \<open>detail\<close> gives the
  \<open>msg\<close> of its first element when that is truthy; a string \<open>detail\<close> gives itself.
\<close>

definition validation_message :: "jsval \<Rightarrow> js_error + jsval" where
  "validation_message detail =
     (if truthy detail \<and> isArray detail then
        (case get_member (first_element detail) ''msg'' of
           Inl e \<Rightarrow> Inl e
         | Inr msg \<Rightarrow> Inr (if truthy msg then msg else JStr VALIDATION_ERROR))
      else if isString detail then Inr detail
      else Inr (JStr VALIDATION_ERROR))"

definition reject_with :: "jsval \<Rightarrow> int \<Rightarrow> jsval \<Rightarrow> reject_reason" where
  "reject_with message status data =
     Rejected \<lparr>rej_message = message, rej_status = status, rej_data = Some data,
               rej_errors = None\<rparr>"

definition response_error_interceptor :: "browser \<Rightarrow> axios_error \<Rightarrow> browser \<times> reject_reason" where
  "response_error_interceptor b error =
     (case err_response error of
        None \<Rightarrow>
          (b, Rejected \<lparr>rej_message = JStr NETWORK_ERROR, rej_status = 0, rej_data = None,
                        rej_errors = None\<rparr>)
      | Some (status, data) \<Rightarrow>
          if status = 401 then
            (snd (clearAuthData b)\<lparr>location_href := ''/login''\<rparr>,
             reject_with (JStr UNAUTHORIZED) status data)
          else if status = 403 then (b, reject_with (JStr FORBIDDEN) status data)
          else if status = 404 then (b, reject_with (JStr NOT_FOUND) status data)
          else if status = 422 then
            (case get_member data ''detail'' of
               Inl e \<Rightarrow> (b, Thrown e)
             | Inr detail \<Rightarrow>
                 (case validation_message detail of
                    Inl e \<Rightarrow> (b, Thrown e)
                  | Inr message \<Rightarrow>
                      (b, Rejected \<lparr>rej_message = message, rej_status = status,
                                    rej_data = Some data, rej_errors = Some detail\<rparr>)))
          else if status = 500 \<or> status = 502 \<or> status = 503 then
            (b, reject_with (JStr SERVER_ERROR) status data)
          else
            (case get_member data ''detail'' of
               Inl e \<Rightarrow> (b, Thrown e)
             | Inr detail \<Rightarrow>
                 (b, reject_with (if truthy detail then detail else JStr ''An error occurred'')
                       status data)))"

section \<open>Properties of the eligibility view\<close>

lemma array_find_None: "array_find p xs = None \<longleftrightarrow> (\<forall>x \<in> set xs. \<not> p x)"
  by (induction xs) auto


lemma can_book_closure:
  "(canBookSubmission (Some app) appts \<longleftrightarrow>
      app_status app = ''submitted'' \<and> \<not> (\<exists>a \<in> set appts. apt_type a = ''submission''))
   \<and> (canBookCollection (Some app) appts \<longleftrightarrow>
      app_status app = ''ready_for_pickup'' \<and> \<not> (\<exists>a \<in> set appts. apt_type a = ''collection''))"
  by (simp add: canBookSubmission_def canBookCollection_def getSubmissionAppointment_def
      getCollectionAppointment_def array_find_None)

lemma set_appAppointments:
  "set (appAppointments routeId appData appointmentsData) =
     {a \<in> set appointmentsData. belongs_to_application routeId appData a}"
  by (simp add: appAppointments_def)

lemma fetchData_loaded:
  "fetchData routeId (Some (appData, appointmentsData)) =
     \<lparr>ds_application = Some appData,
      ds_appointments = appAppointments routeId appData appointmentsData\<rparr>"
  by (simp add: fetchData_def)

text \<open>
  C1, as stated, fails: the page of a submitted application has canBookSubmission true
  although the list of the user's appointments holds an appointment of type 'submission',
  one that belongs to another application.
\<close>

theorem can_book_other_application_counterexample:
  "canBookSubmission
     (ds_application (fetchData ''a1'' (Some
        (\<lparr>app_id = ''a1'', app_application_number = ''PA-0001'', app_status = ''submitted''\<rparr>,
         [\<lparr>apt_id = ''p9'', apt_application_id = ''a2'', apt_application_number = ''PA-0002'',
           apt_type = ''submission'', apt_status = ''scheduled'',
           can_be_rescheduled = True\<rparr>]))))
     (ds_appointments (fetchData ''a1'' (Some
        (\<lparr>app_id = ''a1'', app_application_number = ''PA-0001'', app_status = ''submitted''\<rparr>,
         [\<lparr>apt_id = ''p9'', apt_application_id = ''a2'', apt_application_number = ''PA-0002'',
           apt_type = ''submission'', apt_status = ''scheduled'',
           can_be_rescheduled = True\<rparr>]))))
   \<and> apt_type \<lparr>apt_id = ''p9'', apt_application_id = ''a2'',
        apt_application_number = ''PA-0002'', apt_type = ''submission'',
        apt_status = ''scheduled'', can_be_rescheduled = True\<rparr> = ''submission''"
  by (simp add: fetchData_def appAppointments_def belongs_to_application_def
      canBookSubmission_def getSubmissionAppointment_def)

text \<open>
  C1, amended. For every application and every list of the user's appointments, the
  page's canBookSubmission is true exactly when the application's status is 'submitted'
  and the list holds no appointment of type 'submission' that belongs to this application
  (its application_id is the page's id or its application_number is the application's);
  canBookCollection is true exactly when the status is 'ready_for_pickup' and the list
  holds no appointment of type 'collection' that belongs to this application.
\<close>

theorem can_book_on_user_list:
  "(canBookSubmission
      (ds_application (fetchData routeId (Some (appData, appointmentsData))))
      (ds_appointments (fetchData routeId (Some (appData, appointmentsData)))) \<longleftrightarrow>
      app_status appData = ''submitted''
      \<and> \<not> (\<exists>a \<in> set appointmentsData.
             (apt_application_id a = routeId
              \<or> apt_application_number a = app_application_number appData)
             \<and> apt_type a = ''submission''))
   \<and> (canBookCollection
      (ds_application (fetchData routeId (Some (appData, appointmentsData))))
      (ds_appointments (fetchData routeId (Some (appData, appointmentsData)))) \<longleftrightarrow>
      app_status appData = ''ready_for_pickup''
      \<and> \<not> (\<exists>a \<in> set appointmentsData.
             (apt_application_id a = routeId
              \<or> apt_application_number a = app_application_number appData)
             \<and> apt_type a = ''collection''))"
  by (auto simp: fetchData_loaded can_book_closure set_appAppointments
      belongs_to_application_def)

theorem can_book_on_user_list_witness:
  "canBookSubmission
     (ds_application (fetchData ''a1'' (Some
        (\<lparr>app_id = ''a1'', app_application_number = ''PA-0001'', app_status = ''submitted''\<rparr>,
         [\<lparr>apt_id = ''p9'', apt_application_id = ''a2'', apt_application_number = ''PA-0002'',
           apt_type = ''submission'', apt_status = ''scheduled'',
           can_be_rescheduled = True\<rparr>,
          \<lparr>apt_id = ''p1'', apt_application_id = ''a1'', apt_application_number = ''PA-0001'',
           apt_type = ''collection'', apt_status = ''scheduled'',
           can_be_rescheduled = True\<rparr>]))))
     (ds_appointments (fetchData ''a1'' (Some
        (\<lparr>app_id = ''a1'', app_application_number = ''PA-0001'', app_status = ''submitted''\<rparr>,
         [\<lparr>apt_id = ''p9'', apt_application_id = ''a2'', apt_application_number = ''PA-0002'',
           apt_type = ''submission'', apt_status = ''scheduled'',
           can_be_rescheduled = True\<rparr>,
          \<lparr>apt_id = ''p1'', apt_application_id = ''a1'', apt_application_number = ''PA-0001'',
           apt_type = ''collection'', apt_status = ''scheduled'',
           can_be_rescheduled = True\<rparr>]))))
   \<and> \<not> canBookCollection
     (ds_application (fetchData ''a1'' (Some
        (\<lparr>app_id = ''a1'', app_application_number = ''PA-0001'', app_status = ''submitted''\<rparr>,
         [\<lparr>apt_id = ''p9'', apt_application_id = ''a2'', apt_application_number = ''PA-0002'',
           apt_type = ''submission'', apt_status = ''scheduled'',
           can_be_rescheduled = True\<rparr>,
          \<lparr>apt_id = ''p1'', apt_application_id = ''a1'', apt_application_number = ''PA-0001'',
           apt_type = ''collection'', apt_status = ''scheduled'',
           can_be_rescheduled = True\<rparr>]))))
     (ds_appointments (fetchData ''a1'' (Some
        (\<lparr>app_id = ''a1'', app_application_number = ''PA-0001'', app_status = ''submitted''\<rparr>,
         [\<lparr>apt_id = ''p9'', apt_application_id = ''a2'', apt_application_number = ''PA-0002'',
           apt_type = ''submission'', apt_status = ''scheduled'',
           can_be_rescheduled = True\<rparr>,
          \<lparr>apt_id = ''p1'', apt_application_id = ''a1'', apt_application_number = ''PA-0001'',
           apt_type = ''collection'', apt_status = ''scheduled'',
           can_be_rescheduled = True\<rparr>]))))"
  using can_book_on_user_list [of "''a1''"
      "\<lparr>app_id = ''a1'', app_application_number = ''PA-0001'', app_status = ''submitted''\<rparr>"
      "[\<lparr>apt_id = ''p9'', apt_application_id = ''a2'', apt_application_number = ''PA-0002'',
         apt_type = ''submission'', apt_status = ''scheduled'',
         can_be_rescheduled = True\<rparr>,
        \<lparr>apt_id = ''p1'', apt_application_id = ''a1'', apt_application_number = ''PA-0001'',
         apt_type = ''collection'', apt_status = ''scheduled'',
         can_be_rescheduled = True\<rparr>]"]
  by simp



lemma booking_offer_closure:
  "(submission_block app appts = BookSubmissionLink \<longrightarrow>
      app_status app = ''submitted''
      \<and> \<not> (\<exists>a \<in> set appts. apt_type a = ''submission''))
   \<and> (collection_block app appts = BookCollectionLink \<longrightarrow>
      app_status app = ''ready_for_pickup''
      \<and> \<not> (\<exists>a \<in> set appts. apt_type a = ''collection''))
   \<and> submission_block app appts \<noteq> BookCollectionLink
   \<and> collection_block app appts \<noteq> BookSubmissionLink"
  by (auto simp: submission_block_def collection_block_def canBookSubmission_def
      canBookCollection_def getSubmissionAppointment_def getCollectionAppointment_def
      array_find_None split: option.splits if_splits)

lemma render_detail_loaded:
  "render_detail (fetchData routeId (Some (appData, appointmentsData))) =
     DetailPage
       (submission_block appData (appAppointments routeId appData appointmentsData))
       (collection_block appData (appAppointments routeId appData appointmentsData))
       (sidebar_actions appData)"
  by (simp add: render_detail_def fetchData_def)

text \<open>
  C4, as stated, fails: the page of an application that is ready for pickup offers
  "Book Collection Appointment" although the list of the user's appointments holds a
  collection appointment that is not cancelled, one that belongs to another application.
\<close>

theorem booking_offer_other_application_counterexample:
  "render_detail (fetchData ''a1'' (Some
      (\<lparr>app_id = ''a1'', app_application_number = ''PA-0001'',
        app_status = ''ready_for_pickup''\<rparr>,
       [\<lparr>apt_id = ''p9'', apt_application_id = ''a2'', apt_application_number = ''PA-0002'',
         apt_type = ''collection'', apt_status = ''confirmed'',
         can_be_rescheduled = True\<rparr>])))
     = DetailPage InfoText BookCollectionLink [SchedulePickupButton]
   \<and> apt_type \<lparr>apt_id = ''p9'', apt_application_id = ''a2'',
        apt_application_number = ''PA-0002'', apt_type = ''collection'',
        apt_status = ''confirmed'', can_be_rescheduled = True\<rparr> = ''collection''
   \<and> apt_status \<lparr>apt_id = ''p9'', apt_application_id = ''a2'',
        apt_application_number = ''PA-0002'', apt_type = ''collection'',
        apt_status = ''confirmed'', can_be_rescheduled = True\<rparr> \<noteq> ''cancelled''"
  by (simp add: render_detail_def fetchData_def appAppointments_def
      belongs_to_application_def submission_block_def collection_block_def
      canBookSubmission_def canBookCollection_def getSubmissionAppointment_def
      getCollectionAppointment_def sidebar_actions_def)

text \<open>
  C4, amended. For every application and every list of the user's appointments, whenever
  the page offers "Book Submission Appointment", the application's status is 'submitted'
  and the list holds no submission appointment of this application (its application_id is
  the page's id or its application_number is the application's) that is not cancelled;
  whenever it offers "Book Collection Appointment", the status is 'ready_for_pickup' and
  the list holds no collection appointment of this application that is not cancelled.
  Neither link appears in the other block, and a page whose loading failed offers nothing.
  The remaining control, the "Schedule Pickup" button of the sidebar, is rendered exactly
  when the status is 'ready_for_pickup' and a click on it has no effect.
\<close>

theorem booking_offer_on_user_list:
  "(render_detail (fetchData routeId (Some (appData, appointmentsData)))
      = DetailPage sub col side \<longrightarrow>
      (sub = BookSubmissionLink \<longrightarrow>
         app_status appData = ''submitted''
         \<and> \<not> (\<exists>a \<in> set appointmentsData.
                (apt_application_id a = routeId
                 \<or> apt_application_number a = app_application_number appData)
                \<and> apt_type a = ''submission'' \<and> apt_status a \<noteq> ''cancelled''))
      \<and> (col = BookCollectionLink \<longrightarrow>
         app_status appData = ''ready_for_pickup''
         \<and> \<not> (\<exists>a \<in> set appointmentsData.
                (apt_application_id a = routeId
                 \<or> apt_application_number a = app_application_number appData)
                \<and> apt_type a = ''collection'' \<and> apt_status a \<noteq> ''cancelled''))
      \<and> sub \<noteq> BookCollectionLink \<and> col \<noteq> BookSubmissionLink
      \<and> (SchedulePickupButton \<in> set side \<longleftrightarrow> app_status appData = ''ready_for_pickup''))
   \<and> render_detail (fetchData routeId None) = ApplicationNotFound
   \<and> click_sidebar_action SchedulePickupButton = []"
proof (intro conjI impI)
  assume page: "render_detail (fetchData routeId (Some (appData, appointmentsData)))
      = DetailPage sub col side"
  let ?own = "appAppointments routeId appData appointmentsData"
  from page have sub: "sub = submission_block appData ?own"
    and col: "col = collection_block appData ?own"
    and side: "side = sidebar_actions appData"
    by (simp_all add: render_detail_loaded)
  note closure = booking_offer_closure [of appData ?own]
  {
    assume "sub = BookSubmissionLink"
    with sub closure
    have s: "app_status appData = ''submitted''"
      and n: "\<not> (\<exists>a \<in> set ?own. apt_type a = ''submission'')"
      by simp_all
    show "app_status appData = ''submitted''" by (rule s)
    from n show "\<not> (\<exists>a \<in> set appointmentsData.
                (apt_application_id a = routeId
                 \<or> apt_application_number a = app_application_number appData)
                \<and> apt_type a = ''submission'' \<and> apt_status a \<noteq> ''cancelled'')"
      by (auto simp: set_appAppointments belongs_to_application_def)
  }
  {
    assume "col = BookCollectionLink"
    with col closure
    have s: "app_status appData = ''ready_for_pickup''"
      and n: "\<not> (\<exists>a \<in> set ?own. apt_type a = ''collection'')"
      by simp_all
    show "app_status appData = ''ready_for_pickup''" by (rule s)
    from n show "\<not> (\<exists>a \<in> set appointmentsData.
                (apt_application_id a = routeId
                 \<or> apt_application_number a = app_application_number appData)
                \<and> apt_type a = ''collection'' \<and> apt_status a \<noteq> ''cancelled'')"
      by (auto simp: set_appAppointments belongs_to_application_def)
  }
  from sub closure show "sub \<noteq> BookCollectionLink" by simp
  from col closure show "col \<noteq> BookSubmissionLink" by simp
  from side show "SchedulePickupButton \<in> set side \<longleftrightarrow> app_status appData = ''ready_for_pickup''"
    by (simp add: sidebar_actions_def)
next
  show "render_detail (fetchData routeId None) = ApplicationNotFound"
    by (simp add: render_detail_def fetchData_def)
next
  show "click_sidebar_action SchedulePickupButton = []" by simp
qed

theorem booking_offer_on_user_list_witness:
  "render_detail (fetchData ''a1'' (Some
      (\<lparr>app_id = ''a1'', app_application_number = ''PA-0001'', app_status = ''submitted''\<rparr>,
       [\<lparr>apt_id = ''p9'', apt_application_id = ''a2'', apt_application_number = ''PA-0002'',
         apt_type = ''submission'', apt_status = ''scheduled'',
         can_be_rescheduled = True\<rparr>])))
     = DetailPage BookSubmissionLink InfoText []
   \<and> app_status \<lparr>app_id = ''a1'', app_application_number = ''PA-0001'',
        app_status = ''submitted''\<rparr> = ''submitted''
   \<and> render_detail (fetchData ''a1'' (Some
      (\<lparr>app_id = ''a1'', app_application_number = ''PA-0001'',
        app_status = ''ready_for_pickup''\<rparr>,
       [\<lparr>apt_id = ''p1'', apt_application_id = ''a1'', apt_application_number = ''PA-0001'',
         apt_type = ''submission'', apt_status = ''completed'',
         can_be_rescheduled = False\<rparr>])))
     = DetailPage
         (BookedCard \<lparr>apt_id = ''p1'', apt_application_id = ''a1'',
            apt_application_number = ''PA-0001'', apt_type = ''submission'',
            apt_status = ''completed'', can_be_rescheduled = False\<rparr> [])
         BookCollectionLink [SchedulePickupButton]
   \<and> app_status \<lparr>app_id = ''a1'', app_application_number = ''PA-0001'',
        app_status = ''ready_for_pickup''\<rparr> = ''ready_for_pickup''"
proof -
  have p1: "render_detail (fetchData ''a1'' (Some
      (\<lparr>app_id = ''a1'', app_application_number = ''PA-0001'', app_status = ''submitted''\<rparr>,
       [\<lparr>apt_id = ''p9'', apt_application_id = ''a2'', apt_application_number = ''PA-0002'',
         apt_type = ''submission'', apt_status = ''scheduled'',
         can_be_rescheduled = True\<rparr>])))
     = DetailPage BookSubmissionLink InfoText []"
    by (simp add: render_detail_def fetchData_def appAppointments_def
        belongs_to_application_def submission_block_def collection_block_def
        canBookSubmission_def canBookCollection_def getSubmissionAppointment_def
        getCollectionAppointment_def sidebar_actions_def)
  have p2: "render_detail (fetchData ''a1'' (Some
      (\<lparr>app_id = ''a1'', app_application_number = ''PA-0001'',
        app_status = ''ready_for_pickup''\<rparr>,
       [\<lparr>apt_id = ''p1'', apt_application_id = ''a1'', apt_application_number = ''PA-0001'',
         apt_type = ''submission'', apt_status = ''completed'',
         can_be_rescheduled = False\<rparr>])))
     = DetailPage
         (BookedCard \<lparr>apt_id = ''p1'', apt_application_id = ''a1'',
            apt_application_number = ''PA-0001'', apt_type = ''submission'',
            apt_status = ''completed'', can_be_rescheduled = False\<rparr> [])
         BookCollectionLink [SchedulePickupButton]"
    by (simp add: render_detail_def fetchData_def appAppointments_def
        belongs_to_application_def submission_block_def collection_block_def
        canBookSubmission_def canBookCollection_def getSubmissionAppointment_def
        getCollectionAppointment_def sidebar_actions_def card_actions_def)
  show ?thesis
    using p1 p2
      booking_offer_on_user_list [of "''a1''"
        "\<lparr>app_id = ''a1'', app_application_number = ''PA-0001'', app_status = ''submitted''\<rparr>"
        "[\<lparr>apt_id = ''p9'', apt_application_id = ''a2'', apt_application_number = ''PA-0002'',
           apt_type = ''submission'', apt_status = ''scheduled'',
           can_be_rescheduled = True\<rparr>]"
        BookSubmissionLink InfoText "[]"]
      booking_offer_on_user_list [of "''a1''"
        "\<lparr>app_id = ''a1'', app_application_number = ''PA-0001'',
          app_status = ''ready_for_pickup''\<rparr>"
        "[\<lparr>apt_id = ''p1'', apt_application_id = ''a1'', apt_application_number = ''PA-0001'',
           apt_type = ''submission'', apt_status = ''completed'',
           can_be_rescheduled = False\<rparr>]"
        "BookedCard \<lparr>apt_id = ''p1'', apt_application_id = ''a1'',
            apt_application_number = ''PA-0001'', apt_type = ''submission'',
            apt_status = ''completed'', can_be_rescheduled = False\<rparr> []"
        BookCollectionLink "[SchedulePickupButton]"]
    by simp
qed

section \<open>Properties of the action controls\<close>

text \<open>
  C5. On the officer's daily schedule the Check In action is rendered only for the statuses
  'scheduled', 'confirmed' and 'rescheduled', the Complete action only for 'checked_in',
  and no action button for 'cancelled' or 'no_show'; a click sends the check-in request
  only from the first three statuses and the complete request only from 'checked_in', each
  for the appointment of the row.
\<close>

theorem schedule_action_by_status:
  "((\<exists>i. schedule_action a = CheckInButton i) \<longleftrightarrow>
      apt_status a \<in> {''scheduled'', ''confirmed'', ''rescheduled''})
   \<and> ((\<exists>i. schedule_action a = CompleteButton i) \<longleftrightarrow> apt_status a = ''checked_in'')
   \<and> (apt_status a = ''cancelled'' \<or> apt_status a = ''no_show'' \<longrightarrow>
        schedule_action a = EmptyDiv \<and> click_schedule_action c acc (schedule_action a) = [])
   \<and> (Request (CheckInAppointment k) \<in> set (click_schedule_action c acc (schedule_action a)) \<longrightarrow>
        k = apt_id a \<and> apt_status a \<in> {''scheduled'', ''confirmed'', ''rescheduled''})
   \<and> (Request (CompleteAppointment k) \<in> set (click_schedule_action c acc (schedule_action a)) \<longrightarrow>
        k = apt_id a \<and> apt_status a = ''checked_in'')"
  by (auto simp: schedule_action_def handleCheckIn_def handleComplete_def split: if_splits)

theorem schedule_action_by_status_witness:
  "schedule_action \<lparr>apt_id = ''p1'', apt_application_id = ''a1'',
        apt_application_number = ''PA-0001'', apt_type = ''collection'', apt_status = ''scheduled'',
       can_be_rescheduled = True\<rparr> = CheckInButton ''p1''
   \<and> schedule_action \<lparr>apt_id = ''p1'', apt_application_id = ''a1'',
        apt_application_number = ''PA-0001'', apt_type = ''collection'', apt_status = ''checked_in'',
       can_be_rescheduled = False\<rparr> = CompleteButton ''p1''
   \<and> schedule_action \<lparr>apt_id = ''p1'', apt_application_id = ''a1'',
        apt_application_number = ''PA-0001'', apt_type = ''collection'', apt_status = ''no_show'',
       can_be_rescheduled = False\<rparr> = EmptyDiv
   \<and> Request (CheckInAppointment ''p1'') \<in> set (click_schedule_action True True (schedule_action
       \<lparr>apt_id = ''p1'', apt_application_id = ''a1'',
        apt_application_number = ''PA-0001'', apt_type = ''collection'', apt_status = ''scheduled'',
        can_be_rescheduled = True\<rparr>))
   \<and> Request (CompleteAppointment ''p1'') \<in> set (click_schedule_action True True (schedule_action
       \<lparr>apt_id = ''p1'', apt_application_id = ''a1'',
        apt_application_number = ''PA-0001'', apt_type = ''collection'', apt_status = ''checked_in'',
        can_be_rescheduled = False\<rparr>))"
  using schedule_action_by_status [of
      "\<lparr>apt_id = ''p1'', apt_application_id = ''a1'',
        apt_application_number = ''PA-0001'', apt_type = ''collection'', apt_status = ''scheduled'',
        can_be_rescheduled = True\<rparr>" True True "''p1''"]
    schedule_action_by_status [of
      "\<lparr>apt_id = ''p1'', apt_application_id = ''a1'',
        apt_application_number = ''PA-0001'', apt_type = ''collection'', apt_status = ''checked_in'',
        can_be_rescheduled = False\<rparr>" True True "''p1''"]
    schedule_action_by_status [of
      "\<lparr>apt_id = ''p1'', apt_application_id = ''a1'',
        apt_application_number = ''PA-0001'', apt_type = ''collection'', apt_status = ''no_show'',
        can_be_rescheduled = False\<rparr>" True True "''p1''"]
  by (simp add: schedule_action_def handleCheckIn_def handleComplete_def)

text \<open>
  C2, as stated, fails: a scheduled appointment whose can_be_rescheduled flag is false
  gets no cancel button in the applicant's list.
\<close>

theorem cancel_hidden_counterexample:
  "apt_status \<lparr>apt_id = ''p1'', apt_application_id = ''a1'',
        apt_application_number = ''PA-0001'', apt_type = ''collection'', apt_status = ''scheduled'',
       can_be_rescheduled = False\<rparr> = ''scheduled''
   \<and> \<not> can_be_rescheduled \<lparr>apt_id = ''p1'', apt_application_id = ''a1'',
        apt_application_number = ''PA-0001'', apt_type = ''collection'',
       apt_status = ''scheduled'', can_be_rescheduled = False\<rparr>
   \<and> CancelAppointmentButton ''p1'' \<notin> set (list_actions
       \<lparr>apt_id = ''p1'', apt_application_id = ''a1'',
        apt_application_number = ''PA-0001'', apt_type = ''collection'', apt_status = ''scheduled'',
        can_be_rescheduled = False\<rparr>)"
  by (simp add: list_actions_def)

text \<open>
  C2, amended. In the applicant's list the cancel action is rendered exactly when the
  status is 'scheduled' and can_be_rescheduled is true, and a click on it (once confirmed)
  sends the cancel request for that appointment; when can_be_rescheduled is false the list
  renders no action and the application-detail card renders neither the reschedule link
  nor the cancel button.
\<close>

theorem cancel_tied_to_reschedule_flag:
  "(CancelAppointmentButton k \<in> set (list_actions a) \<longleftrightarrow>
      k = apt_id a \<and> apt_status a = ''scheduled'' \<and> can_be_rescheduled a)
   \<and> hd (handleCancel True acc (apt_id a)) =
        Request (CancelAppointment (apt_id a) ''Cancelled by user'')
   \<and> (\<not> can_be_rescheduled a \<longrightarrow> list_actions a = [] \<and> card_actions a = [])"
  by (auto simp: list_actions_def card_actions_def handleCancel_def)

theorem cancel_tied_to_reschedule_flag_witness:
  "CancelAppointmentButton ''p1'' \<in> set (list_actions
       \<lparr>apt_id = ''p1'', apt_application_id = ''a1'',
        apt_application_number = ''PA-0001'', apt_type = ''collection'', apt_status = ''scheduled'',
        can_be_rescheduled = True\<rparr>)
   \<and> \<not> can_be_rescheduled \<lparr>apt_id = ''p2'', apt_application_id = ''a1'',
        apt_application_number = ''PA-0001'', apt_type = ''collection'',
        apt_status = ''scheduled'', can_be_rescheduled = False\<rparr>
   \<and> card_actions \<lparr>apt_id = ''p2'', apt_application_id = ''a1'',
        apt_application_number = ''PA-0001'', apt_type = ''collection'',
        apt_status = ''scheduled'', can_be_rescheduled = False\<rparr> = []"
  using cancel_tied_to_reschedule_flag [of "''p1''"
      "\<lparr>apt_id = ''p1'', apt_application_id = ''a1'',
        apt_application_number = ''PA-0001'', apt_type = ''collection'', apt_status = ''scheduled'',
        can_be_rescheduled = True\<rparr>"]
    cancel_tied_to_reschedule_flag [of "''p2''"
      "\<lparr>apt_id = ''p2'', apt_application_id = ''a1'',
        apt_application_number = ''PA-0001'', apt_type = ''collection'', apt_status = ''scheduled'',
        can_be_rescheduled = False\<rparr>"]
  by simp

text \<open>
  C3, as stated, fails: on the reschedule page, with an appointment whose
  can_be_rescheduled flag is false and a slot chosen, the confirm button sends the
  reschedule request.
\<close>

theorem reschedule_not_blocked_counterexample:
  "click_confirm ''p1'' ''a1'' True
     \<lparr>rs_appointment = Some \<lparr>apt_id = ''p1'', apt_application_id = ''a1'',
        apt_application_number = ''PA-0001'', apt_type = ''submission'',
          apt_status = ''scheduled'', can_be_rescheduled = False\<rparr>,
      rs_application = Some \<lparr>app_id = ''a1'', app_application_number = ''PA-0001'',
        app_status = ''submitted''\<rparr>,
      rs_selectedSlot = Some \<lparr>slot_id = ''s7'', start_time = ''09:00''\<rparr>,
      rs_reason = ''moved'', rs_loading = False\<rparr>
   = [Request (RescheduleAppointment ''p1'' ''s7'' ''moved''),
      ToastSuccess ''Appointment rescheduled successfully!'',
      Navigate ''/applicant/applications/a1'']"
  by (simp add: click_confirm_def render_reschedule_def handleReschedule_def)

text \<open>
  C3, amended. The reschedule link of the application-detail card is rendered only for an
  appointment whose can_be_rescheduled flag is true. The reschedule page does not read the
  flag: a click on its confirm button sends the reschedule request exactly when the
  appointment and the application are loaded, a slot is chosen and no request is pending.
\<close>

theorem reschedule_gated_at_link_only:
  "(RescheduleLink k \<in> set (card_actions a) \<longrightarrow> can_be_rescheduled a \<and> k = apt_id a)
   \<and> ((\<exists>c. Request c \<in> set (click_confirm r ap acc st)) \<longleftrightarrow>
        rs_appointment st \<noteq> None \<and> rs_application st \<noteq> None
        \<and> rs_selectedSlot st \<noteq> None \<and> \<not> rs_loading st)"
  by (auto simp: card_actions_def click_confirm_def render_reschedule_def
      handleReschedule_def split: if_splits option.splits)

theorem reschedule_gated_at_link_only_witness:
  "RescheduleLink ''p1'' \<in> set (card_actions
       \<lparr>apt_id = ''p1'', apt_application_id = ''a1'',
        apt_application_number = ''PA-0001'', apt_type = ''submission'', apt_status = ''scheduled'',
        can_be_rescheduled = True\<rparr>)
   \<and> (\<exists>c. Request c \<in> set (click_confirm ''p1'' ''a1'' True
       \<lparr>rs_appointment = Some \<lparr>apt_id = ''p1'', apt_application_id = ''a1'',
        apt_application_number = ''PA-0001'', apt_type = ''submission'',
          apt_status = ''scheduled'', can_be_rescheduled = True\<rparr>,
        rs_application = Some \<lparr>app_id = ''a1'', app_application_number = ''PA-0001'',
        app_status = ''submitted''\<rparr>,
        rs_selectedSlot = Some \<lparr>slot_id = ''s7'', start_time = ''09:00''\<rparr>,
        rs_reason = ''moved'', rs_loading = False\<rparr>))"
  using reschedule_gated_at_link_only [of "''p1''"
      "\<lparr>apt_id = ''p1'', apt_application_id = ''a1'',
        apt_application_number = ''PA-0001'', apt_type = ''submission'', apt_status = ''scheduled'',
        can_be_rescheduled = True\<rparr>" "''p1''" "''a1''" True
      "\<lparr>rs_appointment = Some \<lparr>apt_id = ''p1'', apt_application_id = ''a1'',
        apt_application_number = ''PA-0001'', apt_type = ''submission'',
          apt_status = ''scheduled'', can_be_rescheduled = True\<rparr>,
        rs_application = Some \<lparr>app_id = ''a1'', app_application_number = ''PA-0001'',
        app_status = ''submitted''\<rparr>,
        rs_selectedSlot = Some \<lparr>slot_id = ''s7'', start_time = ''09:00''\<rparr>,
        rs_reason = ''moved'', rs_loading = False\<rparr>"]
  by (simp add: card_actions_def)

section \<open>Properties of the status timeline\<close>

lemma length_map_steps: "length (map_steps status k xs) = length xs"
  by (induction xs arbitrary: k) auto

lemma nth_map_steps:
  "j < length xs \<Longrightarrow>
     sv_completed (map_steps status k xs ! j) = isCompleted status (k + int j)
     \<and> sv_current (map_steps status k xs ! j) = isCurrent status (k + int j)
     \<and> sv_key (map_steps status k xs ! j) = fst (xs ! j)"
proof (induction xs arbitrary: k j)
  case Nil
  then show ?case by simp
next
  case (Cons x xs)
  show ?case
  proof (cases j)
    case 0
    then show ?thesis by simp
  next
    case (Suc m)
    with Cons.prems have "m < length xs" by simp
    from Cons.IH [OF this, of "k + 1"] Suc show ?thesis by (simp add: add.assoc)
  qed
qed

lemma findIndex_from_absent:
  "\<forall>x \<in> set xs. \<not> p x \<Longrightarrow> findIndex_from p xs k = - 1"
  by (induction xs arbitrary: k) auto

lemma findIndex_from_range:
  "findIndex_from p xs k = - 1 \<or> (k \<le> findIndex_from p xs k \<and> findIndex_from p xs k < k + int (length xs))"
proof (induction xs arbitrary: k)
  case Nil
  show ?case by simp
next
  case (Cons x xs)
  from Cons.IH [of "k + 1"] show ?case by auto
qed

lemma currentIndex_key:
  "i < 6 \<Longrightarrow> currentIndex (fst (STATUSES ! i)) = int i"
proof -
  assume "i < 6"
  then consider "i = 0" | "i = 1" | "i = 2" | "i = 3" | "i = 4" | "i = 5" by linarith
  then show ?thesis
    by cases (simp_all add: currentIndex_def findIndex_def STATUSES_def)
qed

lemma currentIndex_other:
  "status \<notin> set (map fst STATUSES) \<Longrightarrow> currentIndex status = - 1"
  unfolding currentIndex_def findIndex_def
  by (rule findIndex_from_absent) auto

lemma length_STATUSES: "length STATUSES = 6"
  by (simp add: STATUSES_def)

text \<open>
  C10. The timeline always renders its six steps. For a status equal to the key at index i,
  exactly the steps at indices 0 to i are marked completed and only the step at index i is
  marked current. For every other status string (among them 'documents_required',
  'rejected' and 'expired') the index found is -1 and no step is marked completed or
  current.
\<close>

theorem timeline_marks:
  "length (StatusTimeline status) = 6
   \<and> map sv_key (StatusTimeline status) = map fst STATUSES
   \<and> (\<forall>i < 6. status = fst (STATUSES ! i) \<longrightarrow>
        (\<forall>j < 6. sv_completed (StatusTimeline status ! j) = (j \<le> i)
                \<and> sv_current (StatusTimeline status ! j) = (j = i)))
   \<and> (status \<notin> set (map fst STATUSES) \<longrightarrow>
        currentIndex status = - 1
        \<and> (\<forall>j < 6. \<not> sv_completed (StatusTimeline status ! j)
                  \<and> \<not> sv_current (StatusTimeline status ! j)))"
proof (intro conjI allI impI)
  show "length (StatusTimeline status) = 6"
    by (simp add: StatusTimeline_def length_map_steps length_STATUSES)
  show "map sv_key (StatusTimeline status) = map fst STATUSES"
    by (simp add: StatusTimeline_def STATUSES_def)
next
  fix i j :: nat
  assume i: "i < 6" and s: "status = fst (STATUSES ! i)" and j: "j < 6"
  have c: "currentIndex status = int i" using currentIndex_key [OF i] s by simp
  from j have "j < length STATUSES" by (simp add: length_STATUSES)
  from nth_map_steps [OF this, of status 0]
  show "sv_completed (StatusTimeline status ! j) = (j \<le> i)"
    and "sv_current (StatusTimeline status ! j) = (j = i)"
    by (simp_all add: StatusTimeline_def isCompleted_def isCurrent_def c)
next
  assume "status \<notin> set (map fst STATUSES)"
  then show "currentIndex status = - 1" by (rule currentIndex_other)
next
  fix j :: nat
  assume a: "status \<notin> set (map fst STATUSES)" and j: "j < 6"
  have c: "currentIndex status = - 1" using a by (rule currentIndex_other)
  from j have "j < length STATUSES" by (simp add: length_STATUSES)
  from nth_map_steps [OF this, of status 0]
  show "\<not> sv_completed (StatusTimeline status ! j)"
    and "\<not> sv_current (StatusTimeline status ! j)"
    by (simp_all add: StatusTimeline_def isCompleted_def isCurrent_def c)
qed

theorem timeline_marks_witness:
  "sv_completed (StatusTimeline ''processing'' ! 1)
   \<and> \<not> sv_current (StatusTimeline ''processing'' ! 1)
   \<and> sv_completed (StatusTimeline ''processing'' ! 2)
   \<and> sv_current (StatusTimeline ''processing'' ! 2)
   \<and> \<not> sv_completed (StatusTimeline ''processing'' ! 3)
   \<and> ''rejected'' \<notin> set (map fst STATUSES)
   \<and> currentIndex ''rejected'' = - 1
   \<and> \<not> sv_completed (StatusTimeline ''rejected'' ! 0)
   \<and> \<not> sv_current (StatusTimeline ''rejected'' ! 0)"
proof -
  have k: "(2::nat) < 6" "''processing'' = fst (STATUSES ! 2)"
    by (simp_all add: STATUSES_def)
  have r: "''rejected'' \<notin> set (map fst STATUSES)"
    by (simp add: STATUSES_def)
  from timeline_marks [of "''processing''"] k
  have p: "\<forall>j < 6. sv_completed (StatusTimeline ''processing'' ! j) = (j \<le> 2)
              \<and> sv_current (StatusTimeline ''processing'' ! j) = (j = 2)"
    by blast
  from timeline_marks [of "''rejected''"] r
  have q: "currentIndex ''rejected'' = - 1
           \<and> (\<forall>j < 6. \<not> sv_completed (StatusTimeline ''rejected'' ! j)
                     \<and> \<not> sv_current (StatusTimeline ''rejected'' ! j))"
    by blast
  have p1: "sv_completed (StatusTimeline ''processing'' ! 1)
            \<and> \<not> sv_current (StatusTimeline ''processing'' ! 1)"
    using p [rule_format, of 1] by simp
  have p2: "sv_completed (StatusTimeline ''processing'' ! 2)
            \<and> sv_current (StatusTimeline ''processing'' ! 2)"
    using p [rule_format, of 2] by simp
  have p3: "\<not> sv_completed (StatusTimeline ''processing'' ! 3)"
    using p [rule_format, of 3] by simp
  have q0: "\<not> sv_completed (StatusTimeline ''rejected'' ! 0)
            \<and> \<not> sv_current (StatusTimeline ''rejected'' ! 0)"
    using q by simp
  from p1 p2 p3 q q0 r show ?thesis by blast
qed

section \<open>Properties of the status labels\<close>

lemma format_values:
  "formatStatus ''submitted'' = ''Submitted''"
  "formatStatus ''under_review'' = ''Under Review''"
  "formatStatus ''documents_required'' = ''Documents Required''"
  "formatStatus ''processing'' = ''Processing''"
  "formatStatus ''quality_check'' = ''Quality Check''"
  "formatStatus ''ready_for_pickup'' = ''Ready For Pickup''"
  "formatStatus ''collected'' = ''Collected''"
  "formatStatus ''expired'' = ''Expired''"
  "formatStatus ''rejected'' = ''Rejected''"
  by code_simp+

lemma format_labels_fixed:
  "formatStatus ''Submitted'' = ''Submitted''"
  "formatStatus ''Under Review'' = ''Under Review''"
  "formatStatus ''Documents Required'' = ''Documents Required''"
  "formatStatus ''Processing'' = ''Processing''"
  "formatStatus ''Quality Check'' = ''Quality Check''"
  "formatStatus ''Ready For Pickup'' = ''Ready For Pickup''"
  "formatStatus ''Collected'' = ''Collected''"
  "formatStatus ''Expired'' = ''Expired''"
  "formatStatus ''Rejected'' = ''Rejected''"
  by (simp_all add: formatStatus_def capitalize_def toUpperCase_def is_lower_def)

lemma labels_title_case:
  "title_case ''Submitted''"
  "title_case ''Under Review''"
  "title_case ''Documents Required''"
  "title_case ''Processing''"
  "title_case ''Quality Check''"
  "title_case ''Ready For Pickup''"
  "title_case ''Collected''"
  "title_case ''Expired''"
  "title_case ''Rejected''"
  by (simp_all add: title_case_def title_word_def is_upper_def is_lower_def)

lemma labels_no_undefined:
  "\<not> str_includes ''Submitted'' ''undefined''"
  "\<not> str_includes ''Under Review'' ''undefined''"
  "\<not> str_includes ''Documents Required'' ''undefined''"
  "\<not> str_includes ''Processing'' ''undefined''"
  "\<not> str_includes ''Quality Check'' ''undefined''"
  "\<not> str_includes ''Ready For Pickup'' ''undefined''"
  "\<not> str_includes ''Collected'' ''undefined''"
  "\<not> str_includes ''Expired'' ''undefined''"
  "\<not> str_includes ''Rejected'' ''undefined''"
  by simp_all

lemma color_values:
  "getStatusColor ''submitted'' = ClassName ''bg-blue-100 text-blue-800''"
  "getStatusColor ''under_review'' = ClassName ''bg-yellow-100 text-yellow-800''"
  "getStatusColor ''documents_required'' = ClassName ''bg-orange-100 text-orange-800''"
  "getStatusColor ''processing'' = ClassName ''bg-purple-100 text-purple-800''"
  "getStatusColor ''quality_check'' = ClassName ''bg-indigo-100 text-indigo-800''"
  "getStatusColor ''ready_for_pickup'' = ClassName ''bg-green-100 text-green-800''"
  "getStatusColor ''collected'' = ClassName ''bg-gray-100 text-gray-800''"
  "getStatusColor ''expired'' = ClassName ''bg-red-100 text-red-800''"
  "getStatusColor ''rejected'' = ClassName ''bg-red-100 text-red-800''"
  by (simp_all add: getStatusColor_def colors_def)

text \<open>
  C8. For every application status of the data model, formatStatus yields a non-empty
  Title Case label, formatting that label again returns it unchanged, the label does not
  contain 'undefined', and getStatusColor yields one of the colour categories.
\<close>

theorem status_label_total_idempotent:
  assumes "status \<in> set APPLICATION_STATUSES"
  shows "formatStatus status \<noteq> []
         \<and> title_case (formatStatus status)
         \<and> formatStatus (formatStatus status) = formatStatus status
         \<and> \<not> str_includes (formatStatus status) ''undefined''
         \<and> (\<exists>c \<in> set COLOR_CATEGORIES. getStatusColor status = ClassName c)"
proof -
  have "\<forall>s \<in> set APPLICATION_STATUSES.
          formatStatus s \<noteq> []
          \<and> title_case (formatStatus s)
          \<and> formatStatus (formatStatus s) = formatStatus s
          \<and> \<not> str_includes (formatStatus s) ''undefined''
          \<and> (\<exists>c \<in> set COLOR_CATEGORIES. getStatusColor s = ClassName c)"
    unfolding APPLICATION_STATUSES_def
    by (simp add: format_values format_labels_fixed labels_title_case labels_no_undefined
        color_values COLOR_CATEGORIES_def)
  with assms show ?thesis by blast
qed

theorem status_label_total_idempotent_witness:
  "''ready_for_pickup'' \<in> set APPLICATION_STATUSES
   \<and> formatStatus ''ready_for_pickup'' = ''Ready For Pickup''
   \<and> formatStatus ''ready_for_pickup'' \<noteq> []
   \<and> title_case (formatStatus ''ready_for_pickup'')
   \<and> formatStatus (formatStatus ''ready_for_pickup'') = formatStatus ''ready_for_pickup''
   \<and> \<not> str_includes (formatStatus ''ready_for_pickup'') ''undefined''
   \<and> (\<exists>c \<in> set COLOR_CATEGORIES. getStatusColor ''ready_for_pickup'' = ClassName c)"
proof -
  have h: "''ready_for_pickup'' \<in> set APPLICATION_STATUSES"
    by (simp add: APPLICATION_STATUSES_def)
  show ?thesis
    using h status_label_total_idempotent [OF h] format_values(6) by simp
qed

section \<open>Properties of the HTTP client\<close>

lemma clearAuthData_writable:
  "ls_writable b \<Longrightarrow>
     ls_items (snd (clearAuthData b)) AUTH_TOKEN = None
     \<and> ls_items (snd (clearAuthData b)) USER_DATA = None"
  by (simp add: clearAuthData_def removeAuthToken_def removeUserData_def removeItem_def
      isLocalStorageAvailable_def)

lemma clearAuthData_not_writable:
  "\<not> ls_writable b \<Longrightarrow> clearAuthData b = (False, b)"
  by (simp add: clearAuthData_def removeAuthToken_def removeUserData_def removeItem_def
      isLocalStorageAvailable_def)

lemma interceptor_no_response:
  "err_response e = None \<Longrightarrow>
     response_error_interceptor b e =
       (b, Rejected \<lparr>rej_message = JStr NETWORK_ERROR, rej_status = 0, rej_data = None,
                     rej_errors = None\<rparr>)"
  by (simp add: response_error_interceptor_def)

lemma interceptor_401:
  "err_response e = Some (401, d) \<Longrightarrow>
     response_error_interceptor b e =
       (snd (clearAuthData b)\<lparr>location_href := ''/login''\<rparr>,
        Rejected \<lparr>rej_message = JStr UNAUTHORIZED, rej_status = 401, rej_data = Some d,
                  rej_errors = None\<rparr>)"
  by (simp add: response_error_interceptor_def reject_with_def)

lemma interceptor_rejected_fields:
  "err_response e = Some (st, d) \<Longrightarrow> snd (response_error_interceptor b e) = Rejected r \<Longrightarrow>
     rej_status r = st \<and> rej_data r = Some d"
  by (auto simp: response_error_interceptor_def reject_with_def
      split: if_splits sum.splits)

lemma get_member_defined:
  "d \<noteq> JNull \<Longrightarrow> d \<noteq> JUndefined \<Longrightarrow> \<exists>v. get_member d key = Inr v"
  by (cases d) (auto split: option.splits)

lemma interceptor_not_422_rejects:
  "err_response e = Some (st, d) \<Longrightarrow> st \<noteq> 422 \<Longrightarrow> d \<noteq> JNull \<Longrightarrow> d \<noteq> JUndefined \<Longrightarrow>
     \<exists>r. snd (response_error_interceptor b e) = Rejected r"
  using get_member_defined [of d "''detail''"]
  by (auto simp: response_error_interceptor_def reject_with_def)

lemma interceptor_422:
  "err_response e = Some (422, d) \<Longrightarrow> get_member d ''detail'' = Inr detail \<Longrightarrow>
     validation_message detail = Inr m \<Longrightarrow>
     response_error_interceptor b e =
       (b, Rejected \<lparr>rej_message = m, rej_status = 422, rej_data = Some d,
                     rej_errors = Some detail\<rparr>)"
  by (simp add: response_error_interceptor_def)

lemma validation_message_array:
  "get_member x ''msg'' = Inr m \<Longrightarrow>
     validation_message (JArr (x # xs)) = Inr (if truthy m then m else JStr VALIDATION_ERROR)"
  by (simp add: validation_message_def)

lemma validation_message_string:
  "validation_message (JStr s) = Inr (JStr s)"
  by (simp add: validation_message_def)

lemma validation_message_other:
  "\<not> isArray detail \<Longrightarrow> \<not> isString detail \<Longrightarrow>
     validation_message detail = Inr (JStr VALIDATION_ERROR)"
  by (simp add: validation_message_def)

text \<open>
  A 422 whose \<open>detail\<close> is the empty array: \<open>detail[0]\<close> is \<open>undefined\<close>, and reading
  its \<open>msg\<close> throws inside the interceptor.
\<close>

lemma empty_detail_array_throws:
  "snd (response_error_interceptor b
     \<lparr>err_url = u, err_response = Some (422, JObj [(''detail'', JArr [])])\<rparr>)
   = Thrown TypeError"
  by (simp add: response_error_interceptor_def validation_message_def)

text \<open>
  C6, as stated, fails: when \<open>localStorage\<close> refuses the availability probe's write, a 401
  leaves the stored token and user data in place (the page is still sent to /login).
\<close>

theorem unauthorized_keeps_token_counterexample:
  "ls_items (fst (response_error_interceptor
       \<lparr>ls_items = [AUTH_TOKEN \<mapsto> ''t0k3n'', USER_DATA \<mapsto> ''{}''], ls_writable = False,
        location_href = ''/applicant/dashboard''\<rparr>
       \<lparr>err_url = ''/appointments/my-appointments'',
        err_response = Some (401, JObj [(''detail'', JStr ''Not authenticated'')])\<rparr>))
     AUTH_TOKEN = Some ''t0k3n''"
  by (simp add: response_error_interceptor_def clearAuthData_def removeAuthToken_def
      removeUserData_def removeItem_def isLocalStorageAvailable_def AUTH_TOKEN_def
      USER_DATA_def)

text \<open>
  C6, amended. For every API call that fails with HTTP 401, whatever the request, the
  client navigates to /login and rejects with the session-expired message; it removes the
  stored auth token and the cached user data when \<open>localStorage\<close> passes the availability
  probe, and leaves the stored items as they are when it does not.
\<close>

theorem unauthorized_clears_session:
  assumes "err_response e = Some (401, d)"
  shows "location_href (fst (response_error_interceptor b e)) = ''/login''
         \<and> (ls_writable b \<longrightarrow>
              ls_items (fst (response_error_interceptor b e)) AUTH_TOKEN = None
              \<and> ls_items (fst (response_error_interceptor b e)) USER_DATA = None)
         \<and> (\<not> ls_writable b \<longrightarrow>
              ls_items (fst (response_error_interceptor b e)) = ls_items b)
         \<and> snd (response_error_interceptor b e) =
              Rejected \<lparr>rej_message = JStr UNAUTHORIZED, rej_status = 401, rej_data = Some d,
                        rej_errors = None\<rparr>"
  using assms clearAuthData_writable [of b] clearAuthData_not_writable [of b]
  by (simp add: interceptor_401)

theorem unauthorized_clears_session_witness:
  "err_response \<lparr>err_url = ''/appointments/my-appointments'',
        err_response = Some (401, JObj [(''detail'', JStr ''Not authenticated'')])\<rparr> = Some (401, JObj [(''detail'', JStr ''Not authenticated'')])
   \<and> location_href (fst (response_error_interceptor
       \<lparr>ls_items = [AUTH_TOKEN \<mapsto> ''t0k3n'', USER_DATA \<mapsto> ''{}''], ls_writable = True,
        location_href = ''/applicant/dashboard''\<rparr>
       \<lparr>err_url = ''/appointments/my-appointments'',
        err_response = Some (401, JObj [(''detail'', JStr ''Not authenticated'')])\<rparr>)) = ''/login''
   \<and> ls_items (fst (response_error_interceptor
       \<lparr>ls_items = [AUTH_TOKEN \<mapsto> ''t0k3n'', USER_DATA \<mapsto> ''{}''], ls_writable = True,
        location_href = ''/applicant/dashboard''\<rparr>
       \<lparr>err_url = ''/appointments/my-appointments'',
        err_response = Some (401, JObj [(''detail'', JStr ''Not authenticated'')])\<rparr>)) AUTH_TOKEN = None
   \<and> ls_items (fst (response_error_interceptor
       \<lparr>ls_items = [AUTH_TOKEN \<mapsto> ''t0k3n'', USER_DATA \<mapsto> ''{}''], ls_writable = True,
        location_href = ''/applicant/dashboard''\<rparr>
       \<lparr>err_url = ''/appointments/my-appointments'',
        err_response = Some (401, JObj [(''detail'', JStr ''Not authenticated'')])\<rparr>)) USER_DATA = None"
proof -
  have h: "err_response \<lparr>err_url = ''/appointments/my-appointments'',
        err_response = Some (401, JObj [(''detail'', JStr ''Not authenticated'')])\<rparr> = Some (401, JObj [(''detail'', JStr ''Not authenticated'')])"
    by simp
  show ?thesis
    using h unauthorized_clears_session [OF h, of
        "\<lparr>ls_items = [AUTH_TOKEN \<mapsto> ''t0k3n'', USER_DATA \<mapsto> ''{}''], ls_writable = True,
          location_href = ''/applicant/dashboard''\<rparr>"]
    by simp
qed

text \<open>
  C7, as stated, fails. A call that got no response rejects with an object that has no
  \<open>data\<close> field; and a 422 whose \<open>detail\<close> is an array rejects with the generic message,
  not with \<open>detail[0].msg\<close>, when the first element carries no usable \<open>msg\<close>.
\<close>

theorem rejection_shape_counterexample:
  "snd (response_error_interceptor
       \<lparr>ls_items = Map.empty, ls_writable = True, location_href = ''/login''\<rparr>
       \<lparr>err_url = ''/auth/login'', err_response = None\<rparr>)
     = Rejected \<lparr>rej_message = JStr NETWORK_ERROR, rej_status = 0, rej_data = None,
                 rej_errors = None\<rparr>
   \<and> snd (response_error_interceptor
       \<lparr>ls_items = Map.empty, ls_writable = True, location_href = ''/login''\<rparr>
       \<lparr>err_url = ''/auth/login'',
        err_response = Some (422, JObj [(''detail'', JArr [JObj [(''msg'', JStr [])]])])\<rparr>)
     = Rejected \<lparr>rej_message = JStr VALIDATION_ERROR, rej_status = 422,
                 rej_data = Some (JObj [(''detail'', JArr [JObj [(''msg'', JStr [])]])]),
                 rej_errors = Some (JArr [JObj [(''msg'', JStr [])]])\<rparr>"
  by (simp add: response_error_interceptor_def validation_message_def)

text \<open>
  C7, amended. A failed call that got no response rejects with the network message,
  status 0 and no data field. A failed call that got a response rejects, whenever the
  interceptor yields its own object, with that response's status and data (so, HTTP
  statuses being non-zero, the status is 0 exactly when there was no response), and it
  does yield its own object when the status is not 422 and the body is neither null nor
  undefined. For an HTTP 422 response whose body has a \<open>detail\<close>: when \<open>detail\<close> is an
  array with a first element whose \<open>msg\<close> can be read, the message is that \<open>msg\<close> if it is
  truthy and the generic validation message otherwise; when \<open>detail\<close> is a string, the
  message is \<open>detail\<close>; when it is neither, the message is the generic one.
\<close>

theorem rejection_normalized:
  "(err_response e = None \<longrightarrow>
      snd (response_error_interceptor b e) =
        Rejected \<lparr>rej_message = JStr NETWORK_ERROR, rej_status = 0, rej_data = None,
                  rej_errors = None\<rparr>)
   \<and> (err_response e = Some (st, d) \<and> snd (response_error_interceptor b e) = Rejected r \<longrightarrow>
        rej_status r = st \<and> rej_data r = Some d \<and> (st \<noteq> 0 \<longrightarrow> rej_status r \<noteq> 0))
   \<and> (err_response e = Some (st, d) \<and> st \<noteq> 422 \<and> d \<noteq> JNull \<and> d \<noteq> JUndefined \<longrightarrow>
        (\<exists>r'. snd (response_error_interceptor b e) = Rejected r'))
   \<and> (err_response e = Some (422, d) \<and> get_member d ''detail'' = Inr detail \<longrightarrow>
        (detail = JArr (x # xs) \<and> get_member x ''msg'' = Inr m \<longrightarrow>
           snd (response_error_interceptor b e) =
             Rejected \<lparr>rej_message = (if truthy m then m else JStr VALIDATION_ERROR),
                       rej_status = 422, rej_data = Some d, rej_errors = Some detail\<rparr>)
        \<and> (detail = JStr s \<longrightarrow>
           snd (response_error_interceptor b e) =
             Rejected \<lparr>rej_message = JStr s, rej_status = 422, rej_data = Some d,
                       rej_errors = Some detail\<rparr>)
        \<and> (\<not> isArray detail \<and> \<not> isString detail \<longrightarrow>
           snd (response_error_interceptor b e) =
             Rejected \<lparr>rej_message = JStr VALIDATION_ERROR, rej_status = 422,
                       rej_data = Some d, rej_errors = Some detail\<rparr>))"
proof (intro conjI impI)
  assume "err_response e = None"
  then show "snd (response_error_interceptor b e) =
        Rejected \<lparr>rej_message = JStr NETWORK_ERROR, rej_status = 0, rej_data = None,
                  rej_errors = None\<rparr>"
    by (simp add: interceptor_no_response)
next
  assume a: "err_response e = Some (st, d) \<and> snd (response_error_interceptor b e) = Rejected r"
  from a interceptor_rejected_fields [of e st d b r]
  show "rej_status r = st" and "rej_data r = Some d" by simp_all
  assume "st \<noteq> 0"
  with a interceptor_rejected_fields [of e st d b r] show "rej_status r \<noteq> 0" by simp
next
  assume "err_response e = Some (st, d) \<and> st \<noteq> 422 \<and> d \<noteq> JNull \<and> d \<noteq> JUndefined"
  then show "\<exists>r'. snd (response_error_interceptor b e) = Rejected r'"
    using interceptor_not_422_rejects [of e st d b] by simp
next
  assume a: "err_response e = Some (422, d) \<and> get_member d ''detail'' = Inr detail"
    and c: "detail = JArr (x # xs) \<and> get_member x ''msg'' = Inr m"
  from c have "validation_message detail = Inr (if truthy m then m else JStr VALIDATION_ERROR)"
    by (simp add: validation_message_array)
  with a interceptor_422 [of e d detail _ b]
  show "snd (response_error_interceptor b e) =
          Rejected \<lparr>rej_message = (if truthy m then m else JStr VALIDATION_ERROR),
                    rej_status = 422, rej_data = Some d, rej_errors = Some detail\<rparr>"
    by simp
next
  assume a: "err_response e = Some (422, d) \<and> get_member d ''detail'' = Inr detail"
    and c: "detail = JStr s"
  from c have "validation_message detail = Inr (JStr s)"
    by (simp add: validation_message_string)
  with a interceptor_422 [of e d detail _ b]
  show "snd (response_error_interceptor b e) =
          Rejected \<lparr>rej_message = JStr s, rej_status = 422, rej_data = Some d,
                    rej_errors = Some detail\<rparr>"
    by simp
next
  assume a: "err_response e = Some (422, d) \<and> get_member d ''detail'' = Inr detail"
    and c: "\<not> isArray detail \<and> \<not> isString detail"
  from c have "validation_message detail = Inr (JStr VALIDATION_ERROR)"
    by (simp add: validation_message_other)
  with a interceptor_422 [of e d detail _ b]
  show "snd (response_error_interceptor b e) =
          Rejected \<lparr>rej_message = JStr VALIDATION_ERROR, rej_status = 422,
                    rej_data = Some d, rej_errors = Some detail\<rparr>"
    by simp
qed

theorem rejection_normalized_witness:
  "snd (response_error_interceptor
       \<lparr>ls_items = Map.empty, ls_writable = True, location_href = ''/applicant''\<rparr>
       \<lparr>err_url = ''/appointments/'',
        err_response = Some (422, JObj [(''detail'',
          JArr [JObj [(''loc'', JArr [JStr ''body'']), (''msg'', JStr ''Slot is full'')]])])\<rparr>)
   = Rejected \<lparr>rej_message = JStr ''Slot is full'', rej_status = 422,
       rej_data = Some (JObj [(''detail'',
          JArr [JObj [(''loc'', JArr [JStr ''body'']), (''msg'', JStr ''Slot is full'')]])]),
       rej_errors = Some (JArr
          [JObj [(''loc'', JArr [JStr ''body'']), (''msg'', JStr ''Slot is full'')]])\<rparr>"
  using rejection_normalized [of
      "\<lparr>err_url = ''/appointments/'',
        err_response = Some (422, JObj [(''detail'',
          JArr [JObj [(''loc'', JArr [JStr ''body'']), (''msg'', JStr ''Slot is full'')]])])\<rparr>"
      "\<lparr>ls_items = Map.empty, ls_writable = True, location_href = ''/applicant''\<rparr>"
      422
      "JObj [(''detail'',
          JArr [JObj [(''loc'', JArr [JStr ''body'']), (''msg'', JStr ''Slot is full'')]])]"
      "\<lparr>rej_message = JStr ''Slot is full'', rej_status = 422,
        rej_data = Some (JObj [(''detail'',
          JArr [JObj [(''loc'', JArr [JStr ''body'']), (''msg'', JStr ''Slot is full'')]])]),
        rej_errors = Some (JArr
          [JObj [(''loc'', JArr [JStr ''body'']), (''msg'', JStr ''Slot is full'')]])\<rparr>"
      "JArr [JObj [(''loc'', JArr [JStr ''body'']), (''msg'', JStr ''Slot is full'')]]"
      "JObj [(''loc'', JArr [JStr ''body'']), (''msg'', JStr ''Slot is full'')]"
      "[]" "JStr ''Slot is full''" "''Slot is full''"]
  by simp

end
